theory Spec2Isabelle
  imports Main
begin

section \<open>The compilation log of brunch (lib/utils/helpers.js)\<close>

text \<open>
  This theory embeds \<^verbatim>\<open>generateCompilationLog\<close> of \<^verbatim>\<open>src/lib/utils/helpers.js\<close>
  and proves properties of the status line it builds.

  Two things the JavaScript function reads are not part of the file and are parameters of
  the embedding:
  \<^item> \<^verbatim>\<open>basename\<close>, imported from the package \<^verbatim>\<open>universal-path\<close>: the parameter
    \<open>basename :: string \<Rightarrow> string\<close>;
  \<^item> \<^verbatim>\<open>Date.now()\<close>, the wall-clock time of the call: the parameter \<open>now\<close>.
\<close>

subsection \<open>Data model\<close>

text \<open>
  Every object the function receives is read through its \<^verbatim>\<open>path\<close>; source files also
  through \<^verbatim>\<open>compilationTime\<close> and generated files through \<^verbatim>\<open>sourceFiles\<close>.

  Time stamps are milliseconds since the epoch, as \<^verbatim>\<open>Date.now()\<close> produces them:
  integers. A JavaScript number holds every integer up to \<open>2 ^ 53\<close> exactly, and
  subtraction and comparison of such integers are exact, so they are modelled by \<open>int\<close>.

  \<^verbatim>\<open>dgen.includes(generatedFile)\<close> compares objects by reference, not by content.
  A generated file therefore carries its reference \<open>ident\<close>, and
  \<^verbatim>\<open>disposedFiles.generated\<close> is the list of the references it holds: nothing else of
  its elements is read.
\<close>

record file_obj =
  path :: string

record source_file = file_obj +
  compilationTime :: int

record generated_file = file_obj +
  ident :: nat
  sourceFiles :: "source_file list"

record disposed_files =
  generated :: "nat list"
  sourcePaths :: "string list"

subsection \<open>Numbers and arrays in template literals\<close>

text \<open>
  \<^verbatim>\<open>${n}\<close> of an integer below \<open>10 ^ 21\<close> in absolute value is its decimal numeral,
  with a leading minus sign when it is negative.
\<close>

definition digitChar :: "nat \<Rightarrow> char" where
  "digitChar d = ''0123456789'' ! d"

fun showNat :: "nat \<Rightarrow> string" where
  "showNat n = (if n < 10 then [digitChar n] else showNat (n div 10) @ [digitChar (n mod 10)])"

declare showNat.simps [simp del]

definition showInt :: "int \<Rightarrow> string" where
  "showInt i = (if i < 0 then ''-'' @ showNat (nat (- i)) else showNat (nat i))"

text \<open>
  \<^verbatim>\<open>${array}\<close> is \<^verbatim>\<open>array.join(',')\<close>. The function interpolates an array only where
  its length is 1, which gives the only element.
\<close>

fun arrayToString :: "string list \<Rightarrow> string" where
  "arrayToString [] = []"
| "arrayToString [x] = x"
| "arrayToString (x # y # ys) = x @ '','' @ arrayToString (y # ys)"

subsection \<open>The duration suffix\<close>

text \<open>
  \<^verbatim>\<open>diff / oneSecond\<close> is a division of doubles: the quotient of the two integers rounded
  to a significand of 53 bits, ties to even. For \<open>b \<le> a\<close> the result is represented by
  the pair \<open>(m, e)\<close> that stands for \<open>m * 2 ^ e / 2 ^ 52\<close>, where
  \<open>e = \<lfloor>log\<^sub>2 (a / b)\<rfloor>\<close>, so that \<open>2 ^ 52 \<le> m \<le> 2 ^ 53\<close>. The function divides
  only when \<^verbatim>\<open>diff > oneSecond\<close>; the representation is the double for every such
  difference below \<open>2 ^ 53\<close>, far beyond any difference of two clock readings.
\<close>

fun bitLength :: "nat \<Rightarrow> nat" where
  "bitLength n = (if n = 0 then 0 else Suc (bitLength (n div 2)))"

declare bitLength.simps [simp del]

definition roundHalfEven :: "int \<Rightarrow> int \<Rightarrow> int" where
  "roundHalfEven a b =
     (let q = a div b; r = a mod b
      in if 2 * r < b then q
         else if b < 2 * r then q + 1
         else if even q then q else q + 1)"

definition divideDouble :: "int \<Rightarrow> int \<Rightarrow> int \<times> nat" where
  "divideDouble a b =
     (let e = bitLength (nat (a div b)) - 1
      in (roundHalfEven (a * 2 ^ 52) (b * 2 ^ e), e))"

text \<open>
  \<^verbatim>\<open>x.toFixed(1)\<close> takes the integer \<open>n\<close> for which \<open>n / 10\<close> is closest to the exact
  value of the double \<open>x\<close>, the larger one of two that are equally close, and prints the
  digits of \<open>n\<close> with a point before the last one. For \<open>x = m * 2 ^ e / 2 ^ 52\<close> that is
  \<open>n = \<lfloor>10 * x + 1 / 2\<rfloor> = \<lfloor>(20 * m * 2 ^ e + 2 ^ 52) / 2 ^ 53\<rfloor>\<close>. So 1150 ms is printed as
  \<^verbatim>\<open>1.1 sec\<close>, the double of 1.15 being below 1.15, and 1250 ms as \<^verbatim>\<open>1.3 sec\<close>.
\<close>

definition toFixed1 :: "int \<times> nat \<Rightarrow> string" where
  "toFixed1 x =
     (let n = (20 * fst x * 2 ^ snd x + 2 ^ 52) div 2 ^ 53
      in showInt (n div 10) @ ''.'' @ showInt (n mod 10))"

definition oneSecond :: int where
  "oneSecond = 1000"

definition diffText :: "int \<Rightarrow> string" where
  "diffText diff =
     (if diff > oneSecond then toFixed1 (divideDouble diff oneSecond) @ '' sec''
      else showInt diff @ '' ms'')"

subsection \<open>Collecting the names\<close>

definition getName :: "(string \<Rightarrow> string) \<Rightarrow> 'a file_obj_scheme \<Rightarrow> string" where
  "getName basename file = basename (path file)"

text \<open>
  The array \<^verbatim>\<open>compiled\<close> is shared by both loops. The loop over
  \<^verbatim>\<open>generatedFile.sourceFiles\<close> also updates \<^verbatim>\<open>isChanged\<close> and
  \<^verbatim>\<open>locallyCompiledCount\<close> of the enclosing iteration; the loop over
  \<^verbatim>\<open>generatedFiles\<close> also updates the array \<^verbatim>\<open>generated\<close> and the counter
  \<^verbatim>\<open>cachedCount\<close>. (The fields are \<open>compiledNames\<close> and \<open>generatedNames\<close>, since
  \<open>generated\<close> is the field of \<^verbatim>\<open>disposedFiles\<close>.)
\<close>

record compiled_var =
  compiledNames :: "string list"

record scan = compiled_var +
  isChanged :: bool
  locallyCompiledCount :: int

record collected = compiled_var +
  generatedNames :: "string list"
  cachedCount :: int

text \<open>One call of the inner callback, lines 100 to 110.\<close>

definition sourceFileStep ::
  "(string \<Rightarrow> string) \<Rightarrow> int \<Rightarrow> nat list \<Rightarrow> generated_file \<Rightarrow> source_file \<Rightarrow> scan \<Rightarrow> scan" where
  "sourceFileStep basename startTime dgen generatedFile sourceFile s =
     (let s1 =
        (if compilationTime sourceFile \<ge> startTime then
           (let sourceName = getName basename sourceFile
            in s\<lparr>isChanged := True,
                 locallyCompiledCount := locallyCompiledCount s + 1,
                 compiledNames :=
                   (if sourceName \<in> set (compiledNames s) then compiledNames s
                    else compiledNames s @ [sourceName])\<rparr>)
         else s)
      in if \<not> isChanged s1 \<and> ident generatedFile \<in> set dgen
         then s1\<lparr>isChanged := True\<rparr> else s1)"

text \<open>One call of the outer callback, lines 96 to 115.\<close>

definition generatedFileStep ::
  "(string \<Rightarrow> string) \<Rightarrow> int \<Rightarrow> nat list \<Rightarrow> generated_file \<Rightarrow> collected \<Rightarrow> collected" where
  "generatedFileStep basename startTime dgen generatedFile c =
     (let len = int (length (sourceFiles generatedFile));
          s = fold (sourceFileStep basename startTime dgen generatedFile)
                (sourceFiles generatedFile)
                \<lparr>compiledNames = compiledNames c, isChanged = False,
                 locallyCompiledCount = 0\<rparr>
      in if isChanged s
         then \<lparr>compiledNames = compiledNames s,
               generatedNames = generatedNames c @ [getName basename generatedFile],
               cachedCount = cachedCount c + (len - locallyCompiledCount s)\<rparr>
         else c\<lparr>compiledNames := compiledNames s\<rparr>)"

definition collect ::
  "(string \<Rightarrow> string) \<Rightarrow> int \<Rightarrow> nat list \<Rightarrow> generated_file list \<Rightarrow> collected" where
  "collect basename startTime dgen generatedFiles =
     fold (generatedFileStep basename startTime dgen) generatedFiles
       \<lparr>compiledNames = [], generatedNames = [], cachedCount = 0\<rparr>"

subsection \<open>The clauses\<close>

text \<open>
  The four closures of lines 117 to 160 read the variables the loops have filled, here
  the record \<open>c\<close>, and the arrays \<^verbatim>\<open>disposed\<close> and \<^verbatim>\<open>copied\<close>.
\<close>

definition generatedLog :: "collected \<Rightarrow> string" where
  "generatedLog c =
     (if length (generatedNames c) = 0 then ''''
      else if length (generatedNames c) = 1 then '' into '' @ arrayToString (generatedNames c)
      else '' into '' @ showNat (length (generatedNames c)) @ '' files'')"

definition compiledLog :: "collected \<Rightarrow> string list \<Rightarrow> string" where
  "compiledLog c disposed =
     (if length (compiledNames c) = 0 then
        (if length disposed = 0 then ''''
         else if length disposed = 1 then ''removed '' @ arrayToString disposed
         else ''removed '' @ showNat (length disposed))
      else if length (compiledNames c) = 1 then ''compiled '' @ arrayToString (compiledNames c)
      else ''compiled '' @ showNat (length (compiledNames c)))"

definition cachedLog :: "collected \<Rightarrow> string" where
  "cachedLog c =
     (if cachedCount c = 0 then (if length (compiledNames c) \<le> 1 then '''' else '' files'')
      else if length (compiledNames c) = 0 then
        (let noun = (if length (generatedNames c) > 1 then '''' else '' files'')
         in '' and wrote '' @ showInt (cachedCount c) @ '' cached'' @ noun)
      else if length (compiledNames c) = 1 then
        (let cachedCountName = ''file'' @ (if cachedCount c = 1 then '''' else ''s'')
         in '' and '' @ showInt (cachedCount c) @ '' cached '' @ cachedCountName)
      else '' files and '' @ showInt (cachedCount c) @ '' cached'')"

definition assetsLog :: "string list \<Rightarrow> collected \<Rightarrow> string" where
  "assetsLog copied c =
     (if length copied = 0 then ''''
      else if length copied = 1 then ''copied '' @ arrayToString copied
      else if length (compiledNames c) \<noteq> 0 then ''copied '' @ showNat (length copied)
      else ''copied '' @ showNat (length copied) @ '' files'')"

subsection \<open>The function\<close>

text \<open>
  \<open>mainLog\<close> is the constant \<^verbatim>\<open>main\<close> of line 161, with everything it is computed from
  (lines 90 to 161); \<open>generateCompilationLog\<close> adds the duration, lines 162 to 167.
\<close>

definition mainLog ::
  "(string \<Rightarrow> string) \<Rightarrow> int \<Rightarrow> file_obj list \<Rightarrow> generated_file list \<Rightarrow> disposed_files \<Rightarrow> string" where
  "mainLog basename startTime copiedAssets generatedFiles disposedFiles =
     (let copied = map (getName basename) copiedAssets;
          dgen = generated disposedFiles;
          c = collect basename startTime dgen generatedFiles;
          disposed = sourcePaths disposedFiles;
          nonAssetsLog = compiledLog c disposed @ cachedLog c @ generatedLog c;
          sep = (if nonAssetsLog \<noteq> '''' \<and> length copied \<noteq> 0 then '', '' else '''')
      in nonAssetsLog @ sep @ assetsLog copied c)"

definition generateCompilationLog ::
  "(string \<Rightarrow> string) \<Rightarrow> int \<Rightarrow> int \<Rightarrow> file_obj list \<Rightarrow> generated_file list
     \<Rightarrow> disposed_files \<Rightarrow> string" where
  "generateCompilationLog basename now startTime copiedAssets generatedFiles disposedFiles =
     (let main = mainLog basename startTime copiedAssets generatedFiles disposedFiles;
          diff = now - startTime
      in (if main \<noteq> '''' then main else ''compiled'') @ '' in '' @ diffText diff)"

section \<open>Notions used in the statements\<close>

text \<open>
  A source file is changed in this pass when its compilation time is at or after the start
  of the pass: the test of line 101.
\<close>

definition changed :: "int \<Rightarrow> source_file \<Rightarrow> bool" where
  "changed startTime sourceFile = (compilationTime sourceFile \<ge> startTime)"

text \<open>Lines 105 to 107: a name is pushed unless the array includes it.\<close>

definition addName :: "string \<Rightarrow> string list \<Rightarrow> string list" where
  "addName n ns = (if n \<in> set ns then ns else ns @ [n])"

text \<open>
  The elements of a list in the order of their first appearance, each once: the head, then
  the first occurrences of the rest without the head.
\<close>

fun firstOccurrences :: "'a list \<Rightarrow> 'a list" where
  "firstOccurrences [] = []"
| "firstOccurrences (x # xs) = x # filter (\<lambda>y. y \<noteq> x) (firstOccurrences xs)"

text \<open>
  The generated files for which \<^verbatim>\<open>isChanged\<close> is true after the inner loop, and the
  number each of them adds to \<^verbatim>\<open>cachedCount\<close>.
\<close>

definition flagged :: "int \<Rightarrow> nat list \<Rightarrow> generated_file \<Rightarrow> bool" where
  "flagged startTime dgen g =
     (sourceFiles g \<noteq> [] \<and>
      (ident g \<in> set dgen \<or> list_ex (changed startTime) (sourceFiles g)))"

definition cachedOf :: "int \<Rightarrow> generated_file \<Rightarrow> int" where
  "cachedOf startTime g =
     int (length (sourceFiles g)) - int (length (filter (changed startTime) (sourceFiles g)))"




text \<open>
  Modelled from the spec: \<^verbatim>\<open>basename\<close> of the package \<^verbatim>\<open>universal-path\<close> is not in
  the repository; the specification describes it as the base filename, the final segment
  of a path. \<open>pathBasename\<close> is that segment for a path that does not end in a slash. It
  is used only to run the function on concrete inputs: every general statement below holds
  for any \<open>basename\<close>.
\<close>

definition pathBasename :: "string \<Rightarrow> string" where
  "pathBasename p = rev (takeWhile (\<lambda>c. c \<noteq> CHR ''/'') (rev p))"

section \<open>The loops in closed form\<close>

subsection \<open>First occurrences\<close>

lemma set_firstOccurrences: "set (firstOccurrences xs) = set xs"
  by (induction xs) auto

lemma distinct_firstOccurrences: "distinct (firstOccurrences xs)"
  by (induction xs) (auto simp: set_firstOccurrences)

lemma fold_addName:
  "fold addName xs acc = acc @ filter (\<lambda>y. y \<notin> set acc) (firstOccurrences xs)"
proof (induction xs arbitrary: acc)
  case Nil
  show ?case by simp
next
  case (Cons x xs)
  have unfold: "fold addName (x # xs) acc = fold addName xs (addName x acc)"
    by simp
  show ?case
  proof (cases "x \<in> set acc")
    case True
    then have same: "addName x acc = acc"
      by (simp add: addName_def)
    from True
    have "filter (\<lambda>y. y \<notin> set acc) (filter (\<lambda>y. y \<noteq> x) (firstOccurrences xs))
      = filter (\<lambda>y. y \<notin> set acc) (firstOccurrences xs)"
      by (auto intro: filter_cong)
    with True show ?thesis
      unfolding unfold same Cons.IH by simp
  next
    case False
    then have new: "addName x acc = acc @ [x]"
      by (simp add: addName_def)
    have "filter (\<lambda>y. y \<notin> set (acc @ [x])) (firstOccurrences xs)
      = filter (\<lambda>y. y \<notin> set acc) (filter (\<lambda>y. y \<noteq> x) (firstOccurrences xs))"
      by (auto intro: filter_cong)
    with False show ?thesis
      unfolding unfold new Cons.IH by simp
  qed
qed

subsection \<open>The loop over the source files of one generated file\<close>

lemma sourceFileStep_compiledNames:
  "compiledNames (sourceFileStep b st dgen g sf s) =
     (if changed st sf then addName (getName b sf) (compiledNames s) else compiledNames s)"
  by (simp add: sourceFileStep_def changed_def addName_def Let_def)

lemma sourceFileStep_count:
  "locallyCompiledCount (sourceFileStep b st dgen g sf s) =
     (if changed st sf then locallyCompiledCount s + 1 else locallyCompiledCount s)"
  by (simp add: sourceFileStep_def changed_def Let_def)

lemma sourceFileStep_isChanged:
  "isChanged (sourceFileStep b st dgen g sf s) =
     (isChanged s \<or> changed st sf \<or> ident g \<in> set dgen)"
  by (auto simp add: sourceFileStep_def changed_def Let_def)

lemma fold_sourceFileStep_compiledNames:
  "compiledNames (fold (sourceFileStep b st dgen g) xs s) =
     fold addName (map (getName b) (filter (changed st) xs)) (compiledNames s)"
  by (induction xs arbitrary: s) (simp_all add: sourceFileStep_compiledNames)

lemma fold_sourceFileStep_count:
  "locallyCompiledCount (fold (sourceFileStep b st dgen g) xs s) =
     locallyCompiledCount s + int (length (filter (changed st) xs))"
  by (induction xs arbitrary: s) (simp_all add: sourceFileStep_count)

lemma fold_sourceFileStep_isChanged:
  "isChanged (fold (sourceFileStep b st dgen g) xs s) =
     (isChanged s \<or> (xs \<noteq> [] \<and> (ident g \<in> set dgen \<or> list_ex (changed st) xs)))"
proof (induction xs arbitrary: s)
  case Nil
  show ?case by simp
next
  case (Cons x xs)
  have "isChanged (fold (sourceFileStep b st dgen g) (x # xs) s) =
      isChanged (fold (sourceFileStep b st dgen g) xs (sourceFileStep b st dgen g x s))"
    by simp
  also have "\<dots> = (isChanged (sourceFileStep b st dgen g x s) \<or>
      (xs \<noteq> [] \<and> (ident g \<in> set dgen \<or> list_ex (changed st) xs)))"
    by (rule Cons.IH)
  also have "\<dots> = (isChanged s \<or> ident g \<in> set dgen \<or> list_ex (changed st) (x # xs))"
    unfolding sourceFileStep_isChanged by (cases xs) auto
  finally show ?case by simp
qed

subsection \<open>The loop over the generated files\<close>

lemma generatedFileStep_eq:
  "generatedFileStep b st dgen g c =
     \<lparr>compiledNames = fold addName (map (getName b) (filter (changed st) (sourceFiles g))) (compiledNames c),
      generatedNames = (if flagged st dgen g then generatedNames c @ [getName b g] else generatedNames c),
      cachedCount = (if flagged st dgen g then cachedCount c + cachedOf st g else cachedCount c)\<rparr>"
  by (simp add: generatedFileStep_def Let_def fold_sourceFileStep_compiledNames
      fold_sourceFileStep_count fold_sourceFileStep_isChanged flagged_def cachedOf_def)

lemma fold_generatedFileStep:
  "fold (generatedFileStep b st dgen) gs c =
     \<lparr>compiledNames = fold addName
        (map (getName b) (filter (changed st) (concat (map sourceFiles gs)))) (compiledNames c),
      generatedNames = generatedNames c @ map (getName b) (filter (flagged st dgen) gs),
      cachedCount = cachedCount c + sum_list (map (cachedOf st) (filter (flagged st dgen) gs))\<rparr>"
proof (induction gs arbitrary: c)
  case Nil
  show ?case by simp
next
  case (Cons g gs)
  show ?case
    by (simp add: Cons.IH) (simp add: generatedFileStep_eq)
qed

lemma collect_eq:
  "collect b st dgen gs =
     \<lparr>compiledNames =
        firstOccurrences (map (getName b) (filter (changed st) (concat (map sourceFiles gs)))),
      generatedNames = map (getName b) (filter (flagged st dgen) gs),
      cachedCount = sum_list (map (cachedOf st) (filter (flagged st dgen) gs))\<rparr>"
  by (simp add: collect_def fold_generatedFileStep fold_addName)

subsection \<open>Evaluation\<close>

lemmas clause_defs = compiledLog_def cachedLog_def generatedLog_def assetsLog_def

lemmas number_defs = showInt_def showNat.simps digitChar_def

lemma collect_Nil: "collect b st dgen [] = \<lparr>compiledNames = [], generatedNames = [], cachedCount = 0\<rparr>"
  by (simp add: collect_def)

lemma mainLog_empty: "mainLog b st [] [] \<lparr>generated = [], sourcePaths = []\<rparr> = ''''"
  by (simp add: mainLog_def collect_Nil clause_defs)

lemma diffText_1000: "diffText 1000 = ''1000 ms''"
  by (simp add: diffText_def oneSecond_def number_defs)

lemma diffText_seconds:
  "diffText 1001 = ''1.0 sec''"
  "diffText 1150 = ''1.1 sec''"
  "diffText 1250 = ''1.3 sec''"
  "diffText 61234 = ''61.2 sec''"
  by (simp_all add: diffText_def oneSecond_def toFixed1_def divideDouble_def roundHalfEven_def
      bitLength.simps number_defs)

lemma generatedFileStep_no_sources:
  "sourceFiles g = [] \<Longrightarrow> generatedFileStep b st dgen g c = c"
  by (simp add: generatedFileStep_def)

lemma changed_simps:
  "changed st \<lparr>path = p, compilationTime = t\<rparr> = (st \<le> t)"
  by (simp add: changed_def)

lemma unchanged_filter:
  "\<forall>x\<in>set xs. compilationTime x < st \<Longrightarrow> filter (changed st) xs = []"
  by (induction xs) (simp_all add: changed_def)

subsection \<open>Decimal numerals\<close>











subsection \<open>One generated file with one changed source\<close>

lemma collect_single_changed:
  assumes src: "sourceFiles g = pre @ s # post"
    and new: "compilationTime s \<ge> st"
    and old: "\<forall>x\<in>set (pre @ post). compilationTime x < st"
  shows "collect b st dgen [g] =
    \<lparr>compiledNames = [getName b s], generatedNames = [getName b g],
     cachedCount = int (length pre + length post)\<rparr>"
proof -
  have "filter (changed st) pre = []" and "filter (changed st) post = []"
    using old by (simp_all add: unchanged_filter)
  with new have one: "filter (changed st) (sourceFiles g) = [s]"
    by (simp add: src changed_def)
  have "list_ex (changed st) (sourceFiles g)"
    using new by (simp add: src changed_def)
  then have fl: "flagged st dgen g"
    by (simp add: flagged_def src)
  have "cachedOf st g = int (length pre + length post)"
    by (simp add: cachedOf_def one) (simp add: src)
  with one fl show ?thesis
    by (simp add: collect_eq)
qed

lemma showInt_99: "showInt 99 = ''99''"
  by (simp add: number_defs)

section \<open>The claims\<close>

subsection \<open>C1: the cached clause when nothing is cached\<close>

text \<open>
  C1, as amended. For every input for which the cached count is 0 after the loops, the
  cached clause is the empty string when at most one compiled name was collected, and is
  \<open>'' files''\<close> when two or more were collected (line 138). This is the opposite
  assignment to the one the specification words: the suffix \<open>'' files''\<close> follows
  \<open>''compiled N''\<close>, a count, and never \<open>''compiled <name>''\<close>.
\<close>

theorem C1_cached_clause_when_nothing_cached:
  "cachedCount (collect basename startTime dgen generatedFiles) = 0 \<Longrightarrow>
     cachedLog (collect basename startTime dgen generatedFiles)
       = (if length (compiledNames (collect basename startTime dgen generatedFiles)) \<le> 1
          then '''' else '' files'')"
  by (simp add: cachedLog_def)

text \<open>
  C1 at a generated file with two changed sources and none cached: the log reads
  \<^verbatim>\<open>compiled 2 files into ie7.css\<close>.
\<close>

theorem C1_cached_clause_when_nothing_cached_witness:
  "cachedLog (collect pathBasename 100 []
      [\<lparr>path = ''public/ie7.css'', ident = 1, sourceFiles =
          [\<lparr>path = ''app/a.css'', compilationTime = 100\<rparr>,
           \<lparr>path = ''app/b.css'', compilationTime = 101\<rparr>]\<rparr>])
     = '' files'' \<and>
   cachedLog (collect pathBasename 100 []
      [\<lparr>path = ''public/init.js'', ident = 1, sourceFiles =
          [\<lparr>path = ''app/init.ls'', compilationTime = 100\<rparr>]\<rparr>])
     = ''''"
  using C1_cached_clause_when_nothing_cached [of pathBasename 100 "[]"
      "[\<lparr>path = ''public/ie7.css'', ident = 1, sourceFiles =
          [\<lparr>path = ''app/a.css'', compilationTime = 100\<rparr>,
           \<lparr>path = ''app/b.css'', compilationTime = 101\<rparr>]\<rparr>]"]
    C1_cached_clause_when_nothing_cached [of pathBasename 100 "[]"
      "[\<lparr>path = ''public/init.js'', ident = 1, sourceFiles =
          [\<lparr>path = ''app/init.ls'', compilationTime = 100\<rparr>]\<rparr>]"]
  by (simp add: collect_eq flagged_def cachedOf_def changed_simps getName_def pathBasename_def)

text \<open>
  C1 as the specification words it fails both ways. With two changed sources and nothing
  cached, the compiled-name count is 2 and the cached clause is not empty; with one changed
  source and nothing cached, the count is 1 and the cached clause is not \<open>'' files''\<close>.
\<close>

theorem C1_counterexample:
  "cachedCount (collect pathBasename 100 []
      [\<lparr>path = ''public/ie7.css'', ident = 1, sourceFiles =
          [\<lparr>path = ''app/a.css'', compilationTime = 100\<rparr>,
           \<lparr>path = ''app/b.css'', compilationTime = 101\<rparr>]\<rparr>]) = 0 \<and>
   length (compiledNames (collect pathBasename 100 []
      [\<lparr>path = ''public/ie7.css'', ident = 1, sourceFiles =
          [\<lparr>path = ''app/a.css'', compilationTime = 100\<rparr>,
           \<lparr>path = ''app/b.css'', compilationTime = 101\<rparr>]\<rparr>])) = 2 \<and>
   cachedLog (collect pathBasename 100 []
      [\<lparr>path = ''public/ie7.css'', ident = 1, sourceFiles =
          [\<lparr>path = ''app/a.css'', compilationTime = 100\<rparr>,
           \<lparr>path = ''app/b.css'', compilationTime = 101\<rparr>]\<rparr>]) \<noteq> '''' \<and>
   cachedCount (collect pathBasename 100 []
      [\<lparr>path = ''public/init.js'', ident = 1, sourceFiles =
          [\<lparr>path = ''app/init.ls'', compilationTime = 100\<rparr>]\<rparr>]) = 0 \<and>
   length (compiledNames (collect pathBasename 100 []
      [\<lparr>path = ''public/init.js'', ident = 1, sourceFiles =
          [\<lparr>path = ''app/init.ls'', compilationTime = 100\<rparr>]\<rparr>])) = 1 \<and>
   cachedLog (collect pathBasename 100 []
      [\<lparr>path = ''public/init.js'', ident = 1, sourceFiles =
          [\<lparr>path = ''app/init.ls'', compilationTime = 100\<rparr>]\<rparr>]) \<noteq> '' files''"
  by (simp add: collect_eq flagged_def cachedOf_def changed_simps getName_def pathBasename_def
      cachedLog_def)

subsection \<open>C2: a generated file listed in \<^verbatim>\<open>disposedFiles.generated\<close>\<close>

text \<open>
  C2, as amended. A generated file that is present in \<^verbatim>\<open>disposedFiles.generated\<close> and
  has at least one source file is flagged changed: its iteration appends its basename to
  the generated names and adds the number of its source files that did not change to the
  cached count, and its basename is among the generated names at the end of the loop over
  any list of generated files it belongs to. This holds even if none of its source files
  changed in this pass: then the iteration leaves the compiled names as they are and adds
  the full number of its source files to the cached count.
\<close>

theorem C2_disposed_generated_flagged:
  "ident g \<in> set dgen \<Longrightarrow> sourceFiles g \<noteq> [] \<Longrightarrow>
     generatedNames (generatedFileStep basename startTime dgen g c)
       = generatedNames c @ [getName basename g] \<and>
     cachedCount (generatedFileStep basename startTime dgen g c)
       = cachedCount c + (int (length (sourceFiles g))
           - int (length (filter (changed startTime) (sourceFiles g)))) \<and>
     (g \<in> set generatedFiles \<longrightarrow>
        getName basename g \<in> set (generatedNames (collect basename startTime dgen generatedFiles))) \<and>
     ((\<forall>x\<in>set (sourceFiles g). compilationTime x < startTime) \<longrightarrow>
        generatedFileStep basename startTime dgen g c
          = c\<lparr>generatedNames := generatedNames c @ [getName basename g],
               cachedCount := cachedCount c + int (length (sourceFiles g))\<rparr>)"
proof -
  assume dis: "ident g \<in> set dgen" and ne: "sourceFiles g \<noteq> []"
  have fl: "flagged startTime dgen g"
    using dis ne by (simp add: flagged_def)
  have names: "generatedNames (generatedFileStep basename startTime dgen g c)
       = generatedNames c @ [getName basename g]"
    by (simp add: generatedFileStep_eq fl)
  have count: "cachedCount (generatedFileStep basename startTime dgen g c)
       = cachedCount c + (int (length (sourceFiles g))
           - int (length (filter (changed startTime) (sourceFiles g))))"
    by (simp add: generatedFileStep_eq fl cachedOf_def)
  have whole: "g \<in> set generatedFiles \<longrightarrow>
        getName basename g \<in> set (generatedNames (collect basename startTime dgen generatedFiles))"
    using fl by (simp add: collect_eq)
  have step: "(\<forall>x\<in>set (sourceFiles g). compilationTime x < startTime) \<longrightarrow>
        generatedFileStep basename startTime dgen g c
          = c\<lparr>generatedNames := generatedNames c @ [getName basename g],
               cachedCount := cachedCount c + int (length (sourceFiles g))\<rparr>"
  proof
    assume "\<forall>x\<in>set (sourceFiles g). compilationTime x < startTime"
    then have "filter (changed startTime) (sourceFiles g) = []"
      by (rule unchanged_filter)
    then show "generatedFileStep basename startTime dgen g c
          = c\<lparr>generatedNames := generatedNames c @ [getName basename g],
               cachedCount := cachedCount c + int (length (sourceFiles g))\<rparr>"
      by (simp add: generatedFileStep_eq fl cachedOf_def)
  qed
  from names count whole step show ?thesis by simp
qed

text \<open>
  C2 at a bundle of two unchanged sources that is listed as disposed: it adds its name and
  2 to the cached count.
\<close>

theorem C2_disposed_generated_flagged_witness:
  "generatedFileStep pathBasename 100 [2]
      \<lparr>path = ''public/all.js'', ident = 2, sourceFiles =
          [\<lparr>path = ''app/b.js'', compilationTime = 40\<rparr>,
           \<lparr>path = ''app/c.js'', compilationTime = 50\<rparr>]\<rparr>
      \<lparr>compiledNames = [''a.js''], generatedNames = [''app.js''], cachedCount = 3\<rparr>
     = \<lparr>compiledNames = [''a.js''], generatedNames = [''app.js'', ''all.js''], cachedCount = 5\<rparr> \<and>
   ''all.js'' \<in> set (generatedNames (collect pathBasename 100 [2]
      [\<lparr>path = ''public/app.js'', ident = 1, sourceFiles =
          [\<lparr>path = ''app/a.js'', compilationTime = 100\<rparr>]\<rparr>,
       \<lparr>path = ''public/all.js'', ident = 2, sourceFiles =
          [\<lparr>path = ''app/b.js'', compilationTime = 40\<rparr>,
           \<lparr>path = ''app/c.js'', compilationTime = 50\<rparr>]\<rparr>]))"
  using C2_disposed_generated_flagged [of
      "\<lparr>path = ''public/all.js'', ident = 2, sourceFiles =
          [\<lparr>path = ''app/b.js'', compilationTime = 40\<rparr>,
           \<lparr>path = ''app/c.js'', compilationTime = 50\<rparr>]\<rparr>"
      "[2]" pathBasename 100
      "\<lparr>compiledNames = [''a.js''], generatedNames = [''app.js''], cachedCount = 3\<rparr>"
      "[\<lparr>path = ''public/app.js'', ident = 1, sourceFiles =
          [\<lparr>path = ''app/a.js'', compilationTime = 100\<rparr>]\<rparr>,
       \<lparr>path = ''public/all.js'', ident = 2, sourceFiles =
          [\<lparr>path = ''app/b.js'', compilationTime = 40\<rparr>,
           \<lparr>path = ''app/c.js'', compilationTime = 50\<rparr>]\<rparr>]"]
  by (simp add: getName_def pathBasename_def)

text \<open>
  C2 without the condition on the source files fails: a generated file with no source
  file, listed in \<^verbatim>\<open>disposedFiles.generated\<close>, is not among the generated names, and
  the log is the fallback \<^verbatim>\<open>compiled in 5 ms\<close>.
\<close>

theorem C2_counterexample:
  "ident \<lparr>path = ''public/app.js'', ident = 7, sourceFiles = []\<rparr> \<in> set [7] \<and>
   getName pathBasename \<lparr>path = ''public/app.js'', ident = 7, sourceFiles = []\<rparr>
     \<notin> set (generatedNames (collect pathBasename 100 [7]
         [\<lparr>path = ''public/app.js'', ident = 7, sourceFiles = []\<rparr>])) \<and>
   generateCompilationLog pathBasename 105 100 []
       [\<lparr>path = ''public/app.js'', ident = 7, sourceFiles = []\<rparr>]
       \<lparr>generated = [7], sourcePaths = []\<rparr>
     = ''compiled in 5 ms''"
  by (simp add: generateCompilationLog_def mainLog_def collect_eq flagged_def clause_defs
      diffText_def oneSecond_def number_defs)

subsection \<open>C3: an elapsed time of exactly one second\<close>

text \<open>
  C3, as amended. When the elapsed time (the time of the call minus \<^verbatim>\<open>startTime\<close>) is
  exactly 1000 milliseconds, the duration is rendered in the milliseconds form,
  \<^verbatim>\<open>1000 ms\<close>: the seconds form is taken only when \<^verbatim>\<open>diff > oneSecond\<close> (line 164).
\<close>

theorem C3_boundary_is_milliseconds:
  "now - startTime = 1000 \<Longrightarrow>
   generateCompilationLog basename now startTime copiedAssets generatedFiles disposedFiles
     = (let main = mainLog basename startTime copiedAssets generatedFiles disposedFiles
        in (if main \<noteq> '''' then main else ''compiled'')) @ '' in 1000 ms''"
  by (simp add: generateCompilationLog_def Let_def diffText_1000)

text \<open>C3 at a call 1000 ms after the start, with nothing to report.\<close>

theorem C3_boundary_is_milliseconds_witness:
  "generateCompilationLog pathBasename 1000 0 [] [] \<lparr>generated = [], sourcePaths = []\<rparr>
     = ''compiled in 1000 ms''"
  using C3_boundary_is_milliseconds [of 1000 0 pathBasename "[]" "[]" "\<lparr>generated = [], sourcePaths = []\<rparr>"]
  by (simp add: mainLog_empty)

text \<open>
  C3 as the specification words it fails: at an elapsed time of exactly 1000 ms the log
  is \<^verbatim>\<open>compiled in 1000 ms\<close>, not \<^verbatim>\<open>compiled in 1.0 sec\<close>.
\<close>

theorem C3_counterexample:
  "generateCompilationLog pathBasename 1000 0 [] [] \<lparr>generated = [], sourcePaths = []\<rparr>
     = ''compiled in 1000 ms'' \<and>
   generateCompilationLog pathBasename 1000 0 [] [] \<lparr>generated = [], sourcePaths = []\<rparr>
     \<noteq> ''compiled in 1.0 sec''"
  by (simp add: generateCompilationLog_def mainLog_empty diffText_1000)

subsection \<open>C4: one changed source and 99 cached ones\<close>

text \<open>
  C4, as amended. For a single generated file with exactly one changed source and 99
  unchanged ones (and no copied asset), the log is
  \<^verbatim>\<open>compiled <name> and 99 cached files into <generated name> in <duration>\<close>: it
  contains \<^verbatim>\<open>compiled <name>\<close> and the plural \<^verbatim>\<open>99 cached files\<close>. In general, when
  exactly one compiled name was collected and the cached count is not 0, the cached clause
  ends in \<^verbatim>\<open>file\<close> when the cached count is 1 and in \<^verbatim>\<open>files\<close> otherwise
  (line 145): there the choice depends on the value of the cached count.
\<close>

theorem C4_one_changed_99_cached:
  "sourceFiles g = pre @ s # post \<Longrightarrow> compilationTime s \<ge> startTime \<Longrightarrow>
   \<forall>x\<in>set (pre @ post). compilationTime x < startTime \<Longrightarrow>
   length pre + length post = 99 \<Longrightarrow>
     generateCompilationLog basename now startTime [] [g] disposedFiles
       = ''compiled '' @ basename (path s) @ '' and 99 cached files into '' @ basename (path g)
         @ '' in '' @ diffText (now - startTime) \<and>
     (length (compiledNames c) = 1 \<and> cachedCount c \<noteq> 0 \<longrightarrow>
        cachedLog c = '' and '' @ showInt (cachedCount c) @ '' cached file''
          @ (if cachedCount c = 1 then '''' else ''s''))"
proof -
  assume src: "sourceFiles g = pre @ s # post" and new: "compilationTime s \<ge> startTime"
    and old: "\<forall>x\<in>set (pre @ post). compilationTime x < startTime"
    and len: "length pre + length post = 99"
  have c: "collect basename startTime (generated disposedFiles) [g] =
    \<lparr>compiledNames = [getName basename s], generatedNames = [getName basename g],
     cachedCount = 99\<rparr>"
    using collect_single_changed [OF src new old, of basename "generated disposedFiles"] len
    by simp
  have "mainLog basename startTime [] [g] disposedFiles
      = ''compiled '' @ basename (path s) @ '' and 99 cached files into '' @ basename (path g)"
    by (simp add: mainLog_def c clause_defs showInt_99 getName_def)
  then have whole: "generateCompilationLog basename now startTime [] [g] disposedFiles
       = ''compiled '' @ basename (path s) @ '' and 99 cached files into '' @ basename (path g)
         @ '' in '' @ diffText (now - startTime)"
    by (simp add: generateCompilationLog_def)
  have clause: "length (compiledNames c) = 1 \<and> cachedCount c \<noteq> 0 \<longrightarrow>
        cachedLog c = '' and '' @ showInt (cachedCount c) @ '' cached file''
          @ (if cachedCount c = 1 then '''' else ''s'')"
    by (simp add: cachedLog_def)
  from whole clause show ?thesis by (rule conjI)
qed

text \<open>
  C4 at a bundle whose 41st source is the changed one, and the cached clause of one
  compiled name with one cached file.
\<close>

theorem C4_one_changed_99_cached_witness:
  "generateCompilationLog pathBasename 105 100 []
      [\<lparr>path = ''public/app.js'', ident = 7, sourceFiles =
         replicate 40 \<lparr>path = ''app/lib.js'', compilationTime = 50\<rparr>
         @ \<lparr>path = ''app/controller.coffee'', compilationTime = 101\<rparr>
         # replicate 59 \<lparr>path = ''app/util.js'', compilationTime = 60\<rparr>\<rparr>]
      \<lparr>generated = [], sourcePaths = []\<rparr>
     = ''compiled controller.coffee and 99 cached files into app.js in 5 ms'' \<and>
   cachedLog \<lparr>compiledNames = [''controller.coffee''], generatedNames = [''app.js''], cachedCount = 1\<rparr>
     = '' and 1 cached file''"
  using C4_one_changed_99_cached [of
      "\<lparr>path = ''public/app.js'', ident = 7, sourceFiles =
         replicate 40 \<lparr>path = ''app/lib.js'', compilationTime = 50\<rparr>
         @ \<lparr>path = ''app/controller.coffee'', compilationTime = 101\<rparr>
         # replicate 59 \<lparr>path = ''app/util.js'', compilationTime = 60\<rparr>\<rparr>"
      "replicate 40 \<lparr>path = ''app/lib.js'', compilationTime = 50\<rparr>"
      "\<lparr>path = ''app/controller.coffee'', compilationTime = 101\<rparr>"
      "replicate 59 \<lparr>path = ''app/util.js'', compilationTime = 60\<rparr>"
      100 pathBasename 105 "\<lparr>generated = [], sourcePaths = []\<rparr>"
      "\<lparr>compiledNames = [''controller.coffee''], generatedNames = [''app.js''], cachedCount = 1\<rparr>"]
  by (simp add: pathBasename_def diffText_def oneSecond_def number_defs)

text \<open>
  C4 as the specification words it fails: with one changed and 99 unchanged sources the
  log has the plural \<^verbatim>\<open>99 cached files\<close>, and with the same single compiled name and
  one unchanged source it has the singular \<^verbatim>\<open>1 cached file\<close>, so the choice follows
  the cached count.
\<close>

theorem C4_counterexample:
  "generateCompilationLog pathBasename 105 100 []
      [\<lparr>path = ''public/app.js'', ident = 7, sourceFiles =
         \<lparr>path = ''app/controller.coffee'', compilationTime = 101\<rparr>
         # replicate 99 \<lparr>path = ''app/util.js'', compilationTime = 60\<rparr>\<rparr>]
      \<lparr>generated = [], sourcePaths = []\<rparr>
     = ''compiled controller.coffee and 99 cached files into app.js in 5 ms'' \<and>
   generateCompilationLog pathBasename 105 100 []
      [\<lparr>path = ''public/app.js'', ident = 7, sourceFiles =
         [\<lparr>path = ''app/controller.coffee'', compilationTime = 101\<rparr>,
          \<lparr>path = ''app/util.js'', compilationTime = 60\<rparr>]\<rparr>]
      \<lparr>generated = [], sourcePaths = []\<rparr>
     = ''compiled controller.coffee and 1 cached file into app.js in 5 ms''"
  using collect_single_changed [of
      "\<lparr>path = ''public/app.js'', ident = 7, sourceFiles =
         \<lparr>path = ''app/controller.coffee'', compilationTime = 101\<rparr>
         # replicate 99 \<lparr>path = ''app/util.js'', compilationTime = 60\<rparr>\<rparr>"
      "[]" "\<lparr>path = ''app/controller.coffee'', compilationTime = 101\<rparr>"
      "replicate 99 \<lparr>path = ''app/util.js'', compilationTime = 60\<rparr>" 100 pathBasename "[]"]
    collect_single_changed [of
      "\<lparr>path = ''public/app.js'', ident = 7, sourceFiles =
         [\<lparr>path = ''app/controller.coffee'', compilationTime = 101\<rparr>,
          \<lparr>path = ''app/util.js'', compilationTime = 60\<rparr>]\<rparr>"
      "[]" "\<lparr>path = ''app/controller.coffee'', compilationTime = 101\<rparr>"
      "[\<lparr>path = ''app/util.js'', compilationTime = 60\<rparr>]" 100 pathBasename "[]"]
  by (simp add: generateCompilationLog_def mainLog_def clause_defs diffText_def
      oneSecond_def number_defs getName_def pathBasename_def)

subsection \<open>C5: the shape of the result\<close>


subsection \<open>C6: nothing to report\<close>

text \<open>
  C6. When \<^verbatim>\<open>copiedAssets\<close>, \<^verbatim>\<open>generatedFiles\<close>,
  \<^verbatim>\<open>disposedFiles.generated\<close> and \<^verbatim>\<open>disposedFiles.sourcePaths\<close> are all empty, the
  result is \<^verbatim>\<open>compiled in <duration>\<close>, the duration being that of the elapsed time.
\<close>

theorem C6_all_empty:
  "generateCompilationLog basename now startTime [] [] \<lparr>generated = [], sourcePaths = []\<rparr>
     = ''compiled in '' @ diffText (now - startTime)"
  by (simp add: generateCompilationLog_def mainLog_empty)

subsection \<open>C7: the compiled names\<close>

text \<open>
  C7. After the loops the compiled names are the basenames of the changed source files of
  all generated files, taken in the order of the pass, each at its first appearance only;
  so no name is there twice. A changed source file whose basename is already among the
  compiled names leaves them as they are, and still adds 1 to the locally compiled count
  of its generated file.
\<close>

theorem C7_compiled_names_deduplicated:
  "compiledNames (collect basename startTime dgen generatedFiles) =
     firstOccurrences (map (getName basename)
       (filter (changed startTime) (concat (map sourceFiles generatedFiles)))) \<and>
   distinct (compiledNames (collect basename startTime dgen generatedFiles)) \<and>
   (compilationTime sourceFile \<ge> startTime \<and> getName basename sourceFile \<in> set (compiledNames s) \<longrightarrow>
      compiledNames (sourceFileStep basename startTime dgen generatedFile sourceFile s)
        = compiledNames s \<and>
      locallyCompiledCount (sourceFileStep basename startTime dgen generatedFile sourceFile s)
        = locallyCompiledCount s + 1)"
  by (simp add: collect_eq distinct_firstOccurrences sourceFileStep_compiledNames
      sourceFileStep_count changed_def addName_def)

text \<open>
  C7 at two bundles that share the changed source \<^verbatim>\<open>app/b.js\<close>, the second with
  another changed source of the basename \<^verbatim>\<open>a.js\<close>.
\<close>

theorem C7_compiled_names_deduplicated_witness:
  "compiledNames (collect pathBasename 100 []
      [\<lparr>path = ''public/app.js'', ident = 1, sourceFiles =
          [\<lparr>path = ''app/a.js'', compilationTime = 100\<rparr>,
           \<lparr>path = ''app/b.js'', compilationTime = 101\<rparr>]\<rparr>,
       \<lparr>path = ''public/all.js'', ident = 2, sourceFiles =
          [\<lparr>path = ''app/b.js'', compilationTime = 101\<rparr>,
           \<lparr>path = ''app/c.js'', compilationTime = 50\<rparr>,
           \<lparr>path = ''lib/a.js'', compilationTime = 102\<rparr>]\<rparr>])
     = [''a.js'', ''b.js''] \<and>
   compiledNames (sourceFileStep pathBasename 100 []
       \<lparr>path = ''public/all.js'', ident = 2, sourceFiles = []\<rparr>
       \<lparr>path = ''app/b.js'', compilationTime = 101\<rparr>
       \<lparr>compiledNames = [''a.js'', ''b.js''], isChanged = False, locallyCompiledCount = 0\<rparr>)
     = [''a.js'', ''b.js''] \<and>
   locallyCompiledCount (sourceFileStep pathBasename 100 []
       \<lparr>path = ''public/all.js'', ident = 2, sourceFiles = []\<rparr>
       \<lparr>path = ''app/b.js'', compilationTime = 101\<rparr>
       \<lparr>compiledNames = [''a.js'', ''b.js''], isChanged = False, locallyCompiledCount = 0\<rparr>)
     = 1"
  using C7_compiled_names_deduplicated [of pathBasename 100 "[]"
      "[\<lparr>path = ''public/app.js'', ident = 1, sourceFiles =
          [\<lparr>path = ''app/a.js'', compilationTime = 100\<rparr>,
           \<lparr>path = ''app/b.js'', compilationTime = 101\<rparr>]\<rparr>,
       \<lparr>path = ''public/all.js'', ident = 2, sourceFiles =
          [\<lparr>path = ''app/b.js'', compilationTime = 101\<rparr>,
           \<lparr>path = ''app/c.js'', compilationTime = 50\<rparr>,
           \<lparr>path = ''lib/a.js'', compilationTime = 102\<rparr>]\<rparr>]"
      "\<lparr>path = ''app/b.js'', compilationTime = 101\<rparr>"
      "\<lparr>compiledNames = [''a.js'', ''b.js''], isChanged = False, locallyCompiledCount = 0\<rparr>"
      "\<lparr>path = ''public/all.js'', ident = 2, sourceFiles = []\<rparr>"]
  by (simp add: changed_simps getName_def pathBasename_def)

subsection \<open>C8: the assets clause\<close>

text \<open>
  C8. The assets clause is empty when no asset was copied; \<^verbatim>\<open>copied <basename>\<close>
  when exactly one was; and for \<open>N \<ge> 2\<close> copied assets \<^verbatim>\<open>copied N\<close> when the number
  of compiled names is greater than 0 and \<^verbatim>\<open>copied N files\<close> when it is 0.
\<close>

theorem C8_assets_clause:
  "(copiedAssets = [] \<longrightarrow> assetsLog (map (getName basename) copiedAssets) c = '''') \<and>
   (copiedAssets = [a] \<longrightarrow>
      assetsLog (map (getName basename) copiedAssets) c = ''copied '' @ basename (path a)) \<and>
   (2 \<le> length copiedAssets \<and> 0 < length (compiledNames c) \<longrightarrow>
      assetsLog (map (getName basename) copiedAssets) c
        = ''copied '' @ showNat (length copiedAssets)) \<and>
   (2 \<le> length copiedAssets \<and> length (compiledNames c) = 0 \<longrightarrow>
      assetsLog (map (getName basename) copiedAssets) c
        = ''copied '' @ showNat (length copiedAssets) @ '' files'')"
  by (simp add: assetsLog_def getName_def)

text \<open>C8 at no asset, at one asset, and at two assets with and without a compiled name.\<close>

theorem C8_assets_clause_witness:
  "assetsLog (map (getName pathBasename) [])
      \<lparr>compiledNames = [], generatedNames = [], cachedCount = 0\<rparr> = '''' \<and>
   assetsLog (map (getName pathBasename) [\<lparr>path = ''assets/img.png''\<rparr>])
      \<lparr>compiledNames = [], generatedNames = [], cachedCount = 0\<rparr> = ''copied img.png'' \<and>
   assetsLog (map (getName pathBasename) [\<lparr>path = ''assets/a.png''\<rparr>, \<lparr>path = ''assets/b.png''\<rparr>])
      \<lparr>compiledNames = [''x.js''], generatedNames = [''app.js''], cachedCount = 0\<rparr> = ''copied 2'' \<and>
   assetsLog (map (getName pathBasename) [\<lparr>path = ''assets/a.png''\<rparr>, \<lparr>path = ''assets/b.png''\<rparr>])
      \<lparr>compiledNames = [], generatedNames = [], cachedCount = 0\<rparr> = ''copied 2 files''"
  using C8_assets_clause [of "[]" pathBasename
      "\<lparr>compiledNames = [], generatedNames = [], cachedCount = 0\<rparr>" "\<lparr>path = ''x''\<rparr>"]
    C8_assets_clause [of "[\<lparr>path = ''assets/img.png''\<rparr>]" pathBasename
      "\<lparr>compiledNames = [], generatedNames = [], cachedCount = 0\<rparr>" "\<lparr>path = ''assets/img.png''\<rparr>"]
    C8_assets_clause [of "[\<lparr>path = ''assets/a.png''\<rparr>, \<lparr>path = ''assets/b.png''\<rparr>]" pathBasename
      "\<lparr>compiledNames = [''x.js''], generatedNames = [''app.js''], cachedCount = 0\<rparr>" "\<lparr>path = ''x''\<rparr>"]
    C8_assets_clause [of "[\<lparr>path = ''assets/a.png''\<rparr>, \<lparr>path = ''assets/b.png''\<rparr>]" pathBasename
      "\<lparr>compiledNames = [], generatedNames = [], cachedCount = 0\<rparr>" "\<lparr>path = ''x''\<rparr>"]
  by (simp add: getName_def pathBasename_def number_defs)

subsection \<open>C9: the time of the call only shows in the duration\<close>

text \<open>
  C9. For given \<^verbatim>\<open>copiedAssets\<close>, \<^verbatim>\<open>generatedFiles\<close>, \<^verbatim>\<open>disposedFiles\<close> and
  \<^verbatim>\<open>startTime\<close> there is one summary such that, whatever the time of the call, the
  result is that summary, then \<^verbatim>\<open> in \<close>, then the duration of the elapsed time. Two
  calls at different times therefore differ only after \<^verbatim>\<open> in \<close>.
\<close>

theorem C9_main_independent_of_call_time:
  "\<exists>main. \<forall>now.
     generateCompilationLog basename now startTime copiedAssets generatedFiles disposedFiles
       = main @ '' in '' @ diffText (now - startTime)"
  by (intro exI allI) (simp add: generateCompilationLog_def Let_def)

subsection \<open>C10: a generated file with no source file\<close>

text \<open>
  C10. A generated file whose \<^verbatim>\<open>sourceFiles\<close> is empty is never flagged changed,
  whether or not it is present in \<^verbatim>\<open>disposedFiles.generated\<close>: its iteration leaves
  the generated names, the compiled names and the cached count as they are, and the loop
  over a list of generated files gives the same result with it and without it. The test
  for \<^verbatim>\<open>disposedFiles.generated\<close> is inside the loop over the source files (line 109).
\<close>

theorem C10_no_sources_never_flagged:
  "sourceFiles g = [] \<Longrightarrow>
     generatedFileStep basename startTime dgen g c = c \<and>
     collect basename startTime dgen (pre @ g # post) = collect basename startTime dgen (pre @ post)"
  by (simp add: generatedFileStep_no_sources collect_def)

text \<open>C10 at a generated file with no source file that is listed as disposed.\<close>

theorem C10_no_sources_never_flagged_witness:
  "generatedFileStep pathBasename 100 [7] \<lparr>path = ''public/app.js'', ident = 7, sourceFiles = []\<rparr>
      \<lparr>compiledNames = [], generatedNames = [], cachedCount = 0\<rparr>
     = \<lparr>compiledNames = [], generatedNames = [], cachedCount = 0\<rparr> \<and>
   collect pathBasename 100 [7] ([] @ \<lparr>path = ''public/app.js'', ident = 7, sourceFiles = []\<rparr> # [])
     = collect pathBasename 100 [7] ([] @ [])"
  using C10_no_sources_never_flagged [of "\<lparr>path = ''public/app.js'', ident = 7, sourceFiles = []\<rparr>"
      pathBasename 100 "[7]" "\<lparr>compiledNames = [], generatedNames = [], cachedCount = 0\<rparr>" "[]" "[]"]
  by simp

end
